theory Spec2Isabelle
  imports Complex_Main "HOL-Library.Multiset" "HOL-Library.Monad_Syntax"
begin

section \<open>Types of the frontend (\<^verbatim>\<open>../types\<close>, src/unnamed/part_002)\<close>

text \<open>
  A JavaScript \<^verbatim>\<open>number\<close> is only copied and compared with \<^verbatim>\<open>undefined\<close> by the code
  below, never computed with, so it is a \<^typ>\<open>real\<close>. An optional member
  (\<^verbatim>\<open>field?: T\<close>) is a \<^typ>\<open>'a option\<close>: \<^term>\<open>None\<close> is \<^verbatim>\<open>undefined\<close>. The
  records hold the values of the declared types; a body that carries \<^verbatim>\<open>null\<close> or a
  value of another type under one of these names is outside them.
\<close>

type_synonym number = real

datatype tier = free | premium

record PredictionModel =
  id' :: string
  "alias" :: string
  port :: nat
  apiUrl :: string
  tier :: tier
  description :: string

record PredictionRequestPayload =
  team_a :: string
  team_b :: string
  match_date_str :: string
  odd_a :: "number option"
  odd_b :: "number option"
  odds_home_win :: "number option"
  odds_away_win :: "number option"

text \<open>\<^verbatim>\<open>margin?: number | [number, number]\<close>\<close>

datatype margin_value = Scalar number | Tuple number number

text \<open>
  \<^verbatim>\<open>PredictionResponseData\<close>: the members the service reads. \<^verbatim>\<open>model_alias\<close> is
  declared required, but the code tests it for absence, so it is optional here.
\<close>

record PredictionResponseData =
  predicted_winner :: string
  prob_home_win :: "number option"
  prob_away_win :: "number option"
  prob_draw :: "number option"
  prob_home_rl :: "number option"
  prob_away_rl :: "number option"
  prob_draw_rl :: "number option"
  winner_confidence :: "number option"
  overall_confidence :: "number option"
  confidence :: "number option"
  margin :: "margin_value option"
  model_alias :: "string option"
  model_name :: "string option"
  prediction_id :: "number option"

text \<open>
  A record of the history endpoint (\<^verbatim>\<open>rawPred: any\<close>): the same field bag, with the
  members of the backend's \<^verbatim>\<open>UserPrediction\<close> that \<^verbatim>\<open>getUserPredictions\<close> reads.
\<close>

record UserPrediction = PredictionResponseData +
  model :: string
  match_date :: "string option"
  home_team_name :: "string option"
  away_team_name :: "string option"
  prediction_timestamp :: "string option"

text \<open>\<^verbatim>\<open>PredictionResult\<close>: the members the service writes.\<close>

record PredictionResult =
  predicted_winner :: string
  confidence :: number
  margin :: "margin_value option"
  model_alias :: string
  match_date :: "string option"
  home_team_name :: "string option"
  away_team_name :: "string option"
  prediction_timestamp :: "string option"
  prediction_id :: "number option"

section \<open>Effects: console output, requests, awaited outcomes\<close>

datatype level = Log | Info | Warn | Error

record request =
  url :: string
  verb :: string
  headers :: "(string \<times> string) list"
  body :: "PredictionRequestPayload option"

text \<open>What a function did besides returning: each console call and each \<^verbatim>\<open>fetch\<close>, in order.\<close>

datatype event = Console level string | Fetch request

text \<open>The outcome of an awaited promise.\<close>

datatype 'a promise = Rejected | Resolved 'a

text \<open>
  What \<^verbatim>\<open>response.json()\<close> resolves to: \<^verbatim>\<open>null\<close>, or an object, which is read at the
  type the caller declares for it. Reading a member of \<^verbatim>\<open>null\<close> throws a
  \<^verbatim>\<open>TypeError\<close>; reading a member of an object does not, whether or not the object
  has it.
\<close>

datatype 'a parsed = JsonNull | JsonObject 'a

text \<open>
  A \<^verbatim>\<open>Response\<close>. \<open>json\<close> is the outcome of \<^verbatim>\<open>response.json()\<close> at the type the
  caller reads it at; \<open>detail\<close> is the \<^verbatim>\<open>detail\<close> member of the same body, which
  only the error path reads (\<^verbatim>\<open>errorBody?.detail\<close>: absent when the body has
  none or is not JSON).
\<close>

record 'a response =
  ok :: bool
  status :: nat
  statusText :: string
  json :: "'a promise"
  detail :: "string option"

text \<open>
  The errors the service throws: the configuration error of \<^verbatim>\<open>getPrediction\<close>, the
  error built from a non-2xx response (status, status text, detail or its default),
  a rejected \<^verbatim>\<open>fetch\<close>, a rejected \<^verbatim>\<open>response.json()\<close>, a rejected
  \<^verbatim>\<open>currentUser.getIdToken()\<close>, and the \<^verbatim>\<open>TypeError\<close> of reading a member of
  \<^verbatim>\<open>null\<close>.
\<close>

datatype error =
    ModelNotFound string
  | ApiRequestFailed nat string string
  | FetchRejected
  | JsonRejected
  | GetIdTokenRejected
  | TypeError

text \<open>JavaScript truthiness of an optional string: present and not empty.\<close>

definition truthy :: "string option \<Rightarrow> bool" where
  "truthy s = (case s of None \<Rightarrow> False | Some t \<Rightarrow> t \<noteq> [])"

text \<open>\<^verbatim>\<open>errorBody?.detail || 'No additional details.'\<close>\<close>

definition detailOrDefault :: "string option \<Rightarrow> string" where
  "detailOrDefault d = (if truthy d then the d else ''No additional details.'')"

section \<open>The model registry (\<^verbatim>\<open>../config/models\<close>, src/unnamed/part_002)\<close>

definition BASE_URL :: string where
  "BASE_URL = ''http://localhost''"

definition PREDICTION_MODELS :: "PredictionModel list" where
  "PREDICTION_MODELS =
    [\<lparr>id' = ''lr'', alias = ''Quick Pick'', port = 8001,
      apiUrl = BASE_URL @ '':8001/predict'', tier = free,
      description = ''Fast baseline prediction.''\<rparr>,
     \<lparr>id' = ''lgbm'', alias = ''Form Cruncher'', port = 8002,
      apiUrl = BASE_URL @ '':8002/predict'', tier = free,
      description = ''Balanced performance model.''\<rparr>,
     \<lparr>id' = ''transformer'', alias = ''Deep Dive'', port = 8004,
      apiUrl = BASE_URL @ '':8004/predict'', tier = premium,
      description = ''Context-aware transformer model.''\<rparr>,
     \<lparr>id' = ''stacker'', alias = ''Stacked'', port = 8003,
      apiUrl = BASE_URL @ '':8003/predict'', tier = premium,
      description = ''Ensemble model for higher accuracy.''\<rparr>,
     \<lparr>id' = ''rl'', alias = ''Edge Finder'', port = 8006,
      apiUrl = BASE_URL @ '':8006/predict'', tier = premium,
      description = ''Reinforcement learning agent.''\<rparr>]"

definition DEFAULT_MODEL_ALIAS :: string where
  "DEFAULT_MODEL_ALIAS = ''Quick Pick''"

definition getModelByAlias :: "string \<Rightarrow> PredictionModel option" where
  "getModelByAlias a = find (\<lambda>model. alias model = a) PREDICTION_MODELS"

section \<open>\<^verbatim>\<open>getPrediction\<close> (frontend/src/services/predictionAPI.ts)\<close>

subsection \<open>Processing the raw data (lines 58 to 112)\<close>

text \<open>
  Lines 59 to 90: the chain that assigns \<^verbatim>\<open>confidence\<close>, with the warning each
  fallback branch logs. Each \<^term>\<open>the\<close> stands under the test that its field is
  not \<^verbatim>\<open>undefined\<close>.
\<close>

definition determineConfidence :: "'a PredictionResponseData_scheme \<Rightarrow> number \<times> event list" where
  "determineConfidence rawData =
    (let winner = PredictionResponseData.predicted_winner rawData in
     if winner = ''Home'' \<and> prob_home_rl rawData \<noteq> None then
       (the (prob_home_rl rawData), [])
     else if winner = ''Away'' \<and> prob_away_rl rawData \<noteq> None then
       (the (prob_away_rl rawData), [])
     else if winner = ''Draw'' \<and> prob_draw_rl rawData \<noteq> None then
       (the (prob_draw_rl rawData), [])
     else if winner = ''Home Win'' \<and> prob_home_win rawData \<noteq> None then
       (the (prob_home_win rawData), [])
     else if winner = ''Away Win'' \<and> prob_away_win rawData \<noteq> None then
       (the (prob_away_win rawData), [])
     else if winner = ''Draw'' \<and> prob_draw rawData \<noteq> None then
       (the (prob_draw rawData), [])
     else if winner_confidence rawData \<noteq> None then
       (the (winner_confidence rawData),
        [Console Warn ''Using fallback 'winner_confidence' field from backend.''])
     else if overall_confidence rawData \<noteq> None then
       (the (overall_confidence rawData),
        [Console Warn ''Using fallback 'overall_confidence' field from backend.''])
     else if PredictionResponseData.confidence rawData \<noteq> None then
       (the (PredictionResponseData.confidence rawData),
        [Console Warn ''Using fallback generic 'confidence' field from backend.''])
     else
       (0, [Console Warn (''Could not determine confidence for predicted winner ''
              @ [CHR 0x27] @ winner @ [CHR 0x27] @ ''. Using 0.'')]))"

text \<open>
  Lines 93 to 101: \<^verbatim>\<open>rawData.model_alias || rawData.model_name || modelAlias\<close> and the
  message about where the alias came from.
\<close>

definition finalAlias :: "'a PredictionResponseData_scheme \<Rightarrow> string \<Rightarrow> string \<times> event list" where
  "finalAlias rawData modelAlias =
    (let model_alias = PredictionResponseData.model_alias rawData;
         model_name = PredictionResponseData.model_name rawData in
     (if truthy model_alias then the model_alias
      else if truthy model_name then the model_name
      else modelAlias,
      if \<not> truthy model_alias \<and> \<not> truthy model_name then
        [Console Warn ''Backend response missing 'model_alias' and 'model_name', using requested alias as fallback.'']
      else if truthy model_alias \<and> the model_alias \<noteq> modelAlias then
        [Console Warn (''Backend returned alias '' @ [CHR 0x27] @ the model_alias @ [CHR 0x27]
           @ '' but requested '' @ [CHR 0x27] @ modelAlias @ [CHR 0x27] @ ''. Using backend alias.'')]
      else if truthy model_name \<and> the model_name \<noteq> modelAlias then
        [Console Info (''Backend model_name '' @ [CHR 0x27] @ the model_name @ [CHR 0x27]
           @ '' differs from requested alias '' @ [CHR 0x27] @ modelAlias @ [CHR 0x27] @ ''.'')]
      else []))"

text \<open>
  Lines 58 to 115: the result object built from the raw data, with everything logged
  on the way.
\<close>

definition resultData :: "'a PredictionResponseData_scheme \<Rightarrow> string \<Rightarrow> PredictionResult \<times> event list" where
  "resultData rawData modelAlias =
    (let (confidence, logged1) = determineConfidence rawData;
         (alias, logged2) = finalAlias rawData modelAlias in
     (\<lparr>PredictionResult.predicted_winner = PredictionResponseData.predicted_winner rawData,
       confidence = confidence,
       margin = PredictionResponseData.margin rawData,
       model_alias = alias,
       match_date = None,
       home_team_name = None,
       away_team_name = None,
       prediction_timestamp = None,
       prediction_id = PredictionResponseData.prediction_id rawData\<rparr>,
      logged1 @ logged2 @ [Console Log ''Processed prediction response:'']))"

subsection \<open>The same lines, read by read\<close>

text \<open>
  The definitions above take the raw data as an object. What lines 58 to 112 can throw
  is the \<^verbatim>\<open>TypeError\<close> of a member read, when the body parsed to \<^verbatim>\<open>null\<close>. Here
  every read of a member of \<^verbatim>\<open>rawData\<close> is written out, in the order the lines make
  them, as a step that can fail: \<^term>\<open>None\<close> is the \<^verbatim>\<open>TypeError\<close>, thrown out of the
  lines at that read. No other operation of the lines (comparison with a string or with
  \<^verbatim>\<open>undefined\<close>, \<^verbatim>\<open>||\<close>, \<^verbatim>\<open>!\<close>, a template literal over strings, a console call, an
  object literal) can throw.
\<close>

definition readMember :: "'a parsed \<Rightarrow> ('a \<Rightarrow> 'b) \<Rightarrow> 'b option" where
  "readMember rawData field =
    (case rawData of JsonNull \<Rightarrow> None | JsonObject obj \<Rightarrow> Some (field obj))"

text \<open>
  \<^verbatim>\<open>winner === '...' && rawData.field !== undefined\<close>: the member is read only when
  the label matches. The result is the field where the rule matches.
\<close>

definition labelRule :: "bool \<Rightarrow> 'a parsed \<Rightarrow> ('a \<Rightarrow> 'b option) \<Rightarrow> 'b option option" where
  "labelRule label rawData field = (if label then readMember rawData field else Some None)"

text \<open>Lines 59 to 90.\<close>

definition confidenceStatements ::
  "'a PredictionResponseData_scheme parsed \<Rightarrow> (number \<times> event list) option" where
  "confidenceStatements rawData = do {
     winner \<leftarrow> readMember rawData PredictionResponseData.predicted_winner;
     home_rl \<leftarrow> labelRule (winner = ''Home'') rawData prob_home_rl;
     case home_rl of Some v \<Rightarrow> Some (v, []) | None \<Rightarrow> do {
     away_rl \<leftarrow> labelRule (winner = ''Away'') rawData prob_away_rl;
     case away_rl of Some v \<Rightarrow> Some (v, []) | None \<Rightarrow> do {
     draw_rl \<leftarrow> labelRule (winner = ''Draw'') rawData prob_draw_rl;
     case draw_rl of Some v \<Rightarrow> Some (v, []) | None \<Rightarrow> do {
     home_win \<leftarrow> labelRule (winner = ''Home Win'') rawData prob_home_win;
     case home_win of Some v \<Rightarrow> Some (v, []) | None \<Rightarrow> do {
     away_win \<leftarrow> labelRule (winner = ''Away Win'') rawData prob_away_win;
     case away_win of Some v \<Rightarrow> Some (v, []) | None \<Rightarrow> do {
     draw \<leftarrow> labelRule (winner = ''Draw'') rawData prob_draw;
     case draw of Some v \<Rightarrow> Some (v, []) | None \<Rightarrow> do {
     of_winner \<leftarrow> readMember rawData winner_confidence;
     case of_winner of
       Some v \<Rightarrow> Some (v, [Console Warn ''Using fallback 'winner_confidence' field from backend.''])
     | None \<Rightarrow> do {
     overall \<leftarrow> readMember rawData overall_confidence;
     case overall of
       Some v \<Rightarrow> Some (v, [Console Warn ''Using fallback 'overall_confidence' field from backend.''])
     | None \<Rightarrow> do {
     generic \<leftarrow> readMember rawData PredictionResponseData.confidence;
     case generic of
       Some v \<Rightarrow> Some (v, [Console Warn ''Using fallback generic 'confidence' field from backend.''])
     | None \<Rightarrow>
         Some (0, [Console Warn (''Could not determine confidence for predicted winner ''
                     @ [CHR 0x27] @ winner @ [CHR 0x27] @ ''. Using 0.'')])
     }}}}}}}}}"

text \<open>
  Lines 58 to 115. Line 60 reads the winner first, so a \<^verbatim>\<open>null\<close> body throws there,
  before anything is logged. A member that the lines read more than once is read once.
\<close>

definition processRawData ::
  "'a PredictionResponseData_scheme parsed \<Rightarrow> string \<Rightarrow> (PredictionResult \<times> event list) option" where
  "processRawData rawData modelAlias = do {
     winner \<leftarrow> readMember rawData PredictionResponseData.predicted_winner;
     (confidence, logged1) \<leftarrow> confidenceStatements rawData;
     model_alias \<leftarrow> readMember rawData PredictionResponseData.model_alias;
     model_name \<leftarrow> readMember rawData PredictionResponseData.model_name;
     margin \<leftarrow> readMember rawData PredictionResponseData.margin;
     prediction_id \<leftarrow> readMember rawData PredictionResponseData.prediction_id;
     Some (\<lparr>PredictionResult.predicted_winner = winner,
            confidence = confidence,
            margin = margin,
            model_alias =
              (if truthy model_alias then the model_alias
               else if truthy model_name then the model_name
               else modelAlias),
            match_date = None,
            home_team_name = None,
            away_team_name = None,
            prediction_timestamp = None,
            prediction_id = prediction_id\<rparr>,
           logged1
           @ (if \<not> truthy model_alias \<and> \<not> truthy model_name then
                [Console Warn ''Backend response missing 'model_alias' and 'model_name', using requested alias as fallback.'']
              else if truthy model_alias \<and> the model_alias \<noteq> modelAlias then
                [Console Warn (''Backend returned alias '' @ [CHR 0x27] @ the model_alias @ [CHR 0x27]
                   @ '' but requested '' @ [CHR 0x27] @ modelAlias @ [CHR 0x27] @ ''. Using backend alias.'')]
              else if truthy model_name \<and> the model_name \<noteq> modelAlias then
                [Console Info (''Backend model_name '' @ [CHR 0x27] @ the model_name @ [CHR 0x27]
                   @ '' differs from requested alias '' @ [CHR 0x27] @ modelAlias @ [CHR 0x27] @ ''.'')]
              else [])
           @ [Console Log ''Processed prediction response:''])
   }"

subsection \<open>The call (lines 9 to 123)\<close>

text \<open>
  \<open>net\<close> is the network: the outcome of the \<^verbatim>\<open>fetch\<close> of a request. The second
  component of the result lists the effects in order; the \<^verbatim>\<open>catch\<close> block logs and
  rethrows, also the \<^verbatim>\<open>TypeError\<close> of a body that parsed to \<^verbatim>\<open>null\<close>.
\<close>

definition getPrediction ::
  "(request \<Rightarrow> PredictionResponseData parsed response promise) \<Rightarrow> PredictionRequestPayload
    \<Rightarrow> string \<Rightarrow> string option \<Rightarrow> (error + PredictionResult) \<times> event list" where
  "getPrediction net payload modelAlias idToken =
    (case getModelByAlias modelAlias of
       None \<Rightarrow> (Inl (ModelNotFound modelAlias), [])
     | Some found \<Rightarrow>
        (let req = \<lparr>url = apiUrl found, verb = ''POST'',
                    headers = (''Content-Type'', ''application/json'')
                      # (if truthy idToken then [(''Authorization'', ''Bearer '' @ the idToken)] else []),
                    body = Some payload\<rparr>;
             before =
               [Console Log (''Sending prediction request to '' @ apiUrl found @ '' with payload:''),
                Console Log (if truthy idToken
                  then ''Including Authorization header for model '' @ modelAlias
                  else ''No ID token provided for model '' @ modelAlias
                         @ '', sending unauthenticated request.''),
                Fetch req];
             caught = [Console Error ''Network or API call error:'']
         in case net req of
              Rejected \<Rightarrow> (Inl FetchRejected, before @ caught)
            | Resolved response \<Rightarrow>
                if \<not> ok response then
                  (Inl (ApiRequestFailed (status response) (statusText response)
                          (detailOrDefault (detail response))),
                   before @ [Console Error ''API Error Response:''] @ caught)
                else
                  (case json response of
                     Rejected \<Rightarrow> (Inl JsonRejected, before @ caught)
                   | Resolved rawData \<Rightarrow>
                       (case processRawData rawData modelAlias of
                          None \<Rightarrow> (Inl TypeError, before @ caught)
                        | Some (result, logged) \<Rightarrow> (Inr result, before @ logged)))))"

section \<open>\<^verbatim>\<open>getUserPredictions\<close> (frontend/src/services/predictionAPI.ts)\<close>

definition USER_SERVICE_BASE_URL :: string where
  "USER_SERVICE_BASE_URL = ''http://localhost:8007''"

text \<open>
  Lines 156 to 177: the chain of the history records, inside the callback of
  \<^verbatim>\<open>rawPredictions.map\<close>. A message is cut where it interpolates a number: the warning
  here ends before the prediction id (and the \<^verbatim>\<open>. Using 0.\<close> after it), the final log of
  \<^verbatim>\<open>getUserPredictions\<close> leaves the count out.
\<close>

definition historyConfidence :: "UserPrediction \<Rightarrow> number \<times> event list" where
  "historyConfidence rawPred =
    (let winner = PredictionResponseData.predicted_winner rawPred in
     if winner = ''Home'' \<and> prob_home_rl rawPred \<noteq> None then
       (the (prob_home_rl rawPred), [])
     else if winner = ''Away'' \<and> prob_away_rl rawPred \<noteq> None then
       (the (prob_away_rl rawPred), [])
     else if winner = ''Draw'' \<and> prob_draw_rl rawPred \<noteq> None then
       (the (prob_draw_rl rawPred), [])
     else if winner = ''Home Win'' \<and> prob_home_win rawPred \<noteq> None then
       (the (prob_home_win rawPred), [])
     else if winner = ''Away Win'' \<and> prob_away_win rawPred \<noteq> None then
       (the (prob_away_win rawPred), [])
     else if winner = ''Draw'' \<and> prob_draw rawPred \<noteq> None then
       (the (prob_draw rawPred), [])
     else if winner_confidence rawPred \<noteq> None then
       (the (winner_confidence rawPred), [])
     else if overall_confidence rawPred \<noteq> None then
       (the (overall_confidence rawPred), [])
     else
       (0, [Console Warn ''Could not determine confidence for prediction ID'']))"

text \<open>Lines 154 to 193: the callback of \<^verbatim>\<open>rawPredictions.map\<close>.\<close>

definition processRawPrediction :: "UserPrediction \<Rightarrow> PredictionResult \<times> event list" where
  "processRawPrediction rawPred =
    (let (confidence, logged) = historyConfidence rawPred
     in (\<lparr>PredictionResult.predicted_winner = PredictionResponseData.predicted_winner rawPred,
          confidence = confidence,
          margin = None,
          model_alias = model rawPred,
          match_date = UserPrediction.match_date rawPred,
          home_team_name = UserPrediction.home_team_name rawPred,
          away_team_name = UserPrediction.away_team_name rawPred,
          prediction_timestamp = UserPrediction.prediction_timestamp rawPred,
          prediction_id = PredictionResponseData.prediction_id rawPred\<rparr>,
         logged))"

definition getUserPredictions ::
  "(request \<Rightarrow> UserPrediction list response promise) \<Rightarrow> string
    \<Rightarrow> (error + PredictionResult list) \<times> event list" where
  "getUserPredictions net idToken =
    (let userServiceUrl = USER_SERVICE_BASE_URL @ ''/users/me/predictions'';
         req = \<lparr>url = userServiceUrl, verb = ''GET'',
                headers = [(''Authorization'', ''Bearer '' @ idToken),
                           (''Content-Type'', ''application/json'')],
                body = None\<rparr>;
         before = [Console Log (''Fetching user predictions from '' @ userServiceUrl), Fetch req];
         caught = [Console Error ''Error fetching user predictions:'']
     in case net req of
          Rejected \<Rightarrow> (Inl FetchRejected, before @ caught)
        | Resolved response \<Rightarrow>
            if \<not> ok response then
              (Inl (ApiRequestFailed (status response) (statusText response)
                      (detailOrDefault (detail response))),
               before @ [Console Error ''API Error Response (getUserPredictions):''] @ caught)
            else
              (case json response of
                 Rejected \<Rightarrow> (Inl JsonRejected, before @ caught)
               | Resolved rawPredictions \<Rightarrow>
                   (let processed = map processRawPrediction rawPredictions
                    in (Inr (map fst processed),
                        before @ concat (map snd processed)
                          @ [Console Log ''Successfully fetched and processed user predictions.'']))))"

section \<open>The history view \<^verbatim>\<open>UserPredictions\<close> (src/unnamed/part_006)\<close>

text \<open>
  \<open>getTime\<close> is the builtin \<^verbatim>\<open>new Date(s).getTime()\<close>: the milliseconds since the epoch,
  or \<^term>\<open>None\<close> for \<^verbatim>\<open>NaN\<close> when the string is not a date. The key a record is
  sorted by: \<^verbatim>\<open>a.prediction_timestamp ? new Date(a.prediction_timestamp).getTime() : 0\<close>.
\<close>

definition dateOf :: "(string \<Rightarrow> int option) \<Rightarrow> PredictionResult \<Rightarrow> int option" where
  "dateOf getTime a =
    (if truthy (PredictionResult.prediction_timestamp a)
     then getTime (the (PredictionResult.prediction_timestamp a))
     else Some 0)"

text \<open>The comparator \<^verbatim>\<open>(a, b) => dateB - dateA\<close>; \<^term>\<open>None\<close> is \<^verbatim>\<open>NaN\<close>.\<close>

definition compareFn :: "(string \<Rightarrow> int option) \<Rightarrow> PredictionResult \<Rightarrow> PredictionResult \<Rightarrow> int option" where
  "compareFn getTime a b =
    (case (dateOf getTime a, dateOf getTime b) of
       (Some dateA, Some dateB) \<Rightarrow> Some (dateB - dateA)
     | _ \<Rightarrow> None)"

text \<open>
  The builtin \<^verbatim>\<open>Array.prototype.sort\<close>. ECMAScript reads a comparator's \<^verbatim>\<open>NaN\<close> as
  \<open>+0\<close> (SortCompare), sorts stably when the comparator is consistent on the array,
  and leaves the order to the implementation otherwise. The model is the stable
  insertion sort; it says nothing reliable about an array on which the comparator
  returns \<^verbatim>\<open>NaN\<close>.
\<close>

definition sortCompare :: "('a \<Rightarrow> 'a \<Rightarrow> int option) \<Rightarrow> 'a \<Rightarrow> 'a \<Rightarrow> int" where
  "sortCompare comparefn x y = (case comparefn x y of None \<Rightarrow> 0 | Some v \<Rightarrow> v)"

fun insertBy :: "('a \<Rightarrow> 'a \<Rightarrow> int option) \<Rightarrow> 'a \<Rightarrow> 'a list \<Rightarrow> 'a list" where
  "insertBy comparefn x [] = [x]"
| "insertBy comparefn x (y # ys) =
    (if sortCompare comparefn x y \<le> 0 then x # y # ys else y # insertBy comparefn x ys)"

definition arraySort :: "('a \<Rightarrow> 'a \<Rightarrow> int option) \<Rightarrow> 'a list \<Rightarrow> 'a list" where
  "arraySort comparefn xs = foldr (insertBy comparefn) xs []"

text \<open>
  The component's state. \<open>error\<close> holds \<^verbatim>\<open>err.message || "Failed to load your
  predictions."\<close> as the error it was read from.
\<close>

datatype view_error = PleaseLogIn | LoadFailed error

record UserPredictionsState =
  predictions :: "PredictionResult list"
  loading :: bool
  error :: "view_error option"

text \<open>
  \<open>currentUser\<close>: \<^term>\<open>None\<close> when nobody is logged in, else the outcome of
  \<^verbatim>\<open>currentUser.getIdToken()\<close>.
\<close>

text \<open>Lines 21 to 46 of the component: the extracted \<^verbatim>\<open>fetchPredictions\<close>, which sorts.\<close>

definition fetchPredictions ::
  "(string \<Rightarrow> int option) \<Rightarrow> (request \<Rightarrow> UserPrediction list response promise)
    \<Rightarrow> string promise option \<Rightarrow> UserPredictionsState \<Rightarrow> UserPredictionsState" where
  "fetchPredictions getTime net currentUser s =
    (case currentUser of
       None \<Rightarrow> s\<lparr>error := Some PleaseLogIn, loading := False\<rparr>
     | Some getIdToken \<Rightarrow>
         (case getIdToken of
            Rejected \<Rightarrow> s\<lparr>error := Some (LoadFailed GetIdTokenRejected), loading := False\<rparr>
          | Resolved token \<Rightarrow>
              (case fst (getUserPredictions net token) of
                 Inl err \<Rightarrow> s\<lparr>error := Some (LoadFailed err), loading := False\<rparr>
               | Inr userPreds \<Rightarrow>
                   s\<lparr>predictions := arraySort (compareFn getTime) userPreds,
                     error := None, loading := False\<rparr>)))"

text \<open>
  Lines 49 to 72: the \<^verbatim>\<open>fetchPredictions\<close> that \<^verbatim>\<open>useEffect\<close> declares for itself and
  runs when the component mounts and when the user changes. It is the only one the
  component calls.
\<close>

definition useEffect_fetchPredictions ::
  "(request \<Rightarrow> UserPrediction list response promise)
    \<Rightarrow> string promise option \<Rightarrow> UserPredictionsState \<Rightarrow> UserPredictionsState" where
  "useEffect_fetchPredictions net currentUser s =
    (case currentUser of
       None \<Rightarrow> s\<lparr>error := Some PleaseLogIn, loading := False\<rparr>
     | Some getIdToken \<Rightarrow>
         (case getIdToken of
            Rejected \<Rightarrow> s\<lparr>error := Some (LoadFailed GetIdTokenRejected), loading := False\<rparr>
          | Resolved token \<Rightarrow>
              (case fst (getUserPredictions net token) of
                 Inl err \<Rightarrow> s\<lparr>error := Some (LoadFailed err), loading := False\<rparr>
               | Inr userPreds \<Rightarrow>
                   s\<lparr>predictions := userPreds, error := None, loading := False\<rparr>)))"

section \<open>Entitlement state\<close>

subsection \<open>\<^verbatim>\<open>PredictionForm\<close>, \<^verbatim>\<open>fetchAllowedModes\<close> (src/unnamed/part_005, lines 25 to 49)\<close>

text \<open>
  The state is \<^verbatim>\<open>allowedModes\<close>, initially \<^verbatim>\<open>['Quick Pick']\<close>. The result is the state
  after the call; the state before it is an argument, although no branch reads it.
\<close>

text \<open>\<^verbatim>\<open>currentUser ? await currentUser.getIdToken() : null\<close>\<close>

fun awaitIdToken :: "string promise option \<Rightarrow> string option promise" where
  "awaitIdToken None = Resolved None"
| "awaitIdToken (Some Rejected) = Rejected"
| "awaitIdToken (Some (Resolved token)) = Resolved (Some token)"

text \<open>The arguments of the \<^verbatim>\<open>fetch\<close>: the URL and \<^verbatim>\<open>token ? { Authorization: ... } : {}\<close>.\<close>

definition modesRequest :: "string option \<Rightarrow> request" where
  "modesRequest token =
    \<lparr>url = ''http://localhost:8007/users/me/modes'', verb = ''GET'',
     headers = (if truthy token then [(''Authorization'', ''Bearer '' @ the token)] else []),
     body = None\<rparr>"

definition fetchAllowedModes ::
  "(request \<Rightarrow> string list response promise) \<Rightarrow> string promise option \<Rightarrow> string list
    \<Rightarrow> string list \<times> event list" where
  "fetchAllowedModes net currentUser allowedModes =
    (let caught = [Console Error ''Error fetching allowed modes:''] in
     case awaitIdToken currentUser of
       Rejected \<Rightarrow> ([''Quick Pick''], caught)
     | Resolved token \<Rightarrow>
         (case net (modesRequest token) of
            Rejected \<Rightarrow> ([''Quick Pick''], Fetch (modesRequest token) # caught)
          | Resolved response \<Rightarrow>
              if ok response then
                (case json response of
                   Rejected \<Rightarrow> ([''Quick Pick''], Fetch (modesRequest token) # caught)
                 | Resolved modes \<Rightarrow> (modes, [Fetch (modesRequest token)]))
              else if status response = 403 then
                ([''Quick Pick''],
                 [Fetch (modesRequest token),
                  Console Warn ''User not authorized for premium modes (403). Defaulting to free tier.''])
              else
                ([''Quick Pick''],
                 [Fetch (modesRequest token),
                  Console Error ''Failed to fetch allowed modes, status:''])))"

subsection \<open>\<^verbatim>\<open>EntitlementsProvider\<close> (frontend/src/contexts/EntitlementsContext.tsx, lines 15 to 34)\<close>

text \<open>
  The state the provider exposes. \<^verbatim>\<open>setEntitlements(data.entitlements)\<close> stores whatever
  the parsed body holds under \<^verbatim>\<open>entitlements\<close>, also \<^verbatim>\<open>undefined\<close>: that is
  \<^term>\<open>None\<close> here, both in the body and in the state.
\<close>

record EntitlementsContextType =
  entitlements :: "string list option"
  loading :: bool

definition initialEntitlements :: EntitlementsContextType where
  "initialEntitlements = \<lparr>entitlements = Some [], loading = True\<rparr>"

text \<open>
  One poll: \<^verbatim>\<open>fetch(...).then((res) => res.json()).then((data) => {...})\<close>. The chain
  has no \<^verbatim>\<open>catch\<close> and does not look at \<^verbatim>\<open>res.ok\<close>: a rejection at any step skips
  the last callback, and the state stays as it was. (A body that is \<^verbatim>\<open>null\<close> makes
  \<^verbatim>\<open>data.entitlements\<close> throw, which rejects the chain as an unparseable body does.)
\<close>

definition fetchEntitlements ::
  "(request \<Rightarrow> string list option response promise) \<Rightarrow> EntitlementsContextType
    \<Rightarrow> EntitlementsContextType" where
  "fetchEntitlements net s =
    (case net \<lparr>url = ''/api/stripe/entitlements'', verb = ''GET'', headers = [], body = None\<rparr> of
       Rejected \<Rightarrow> s
     | Resolved res \<Rightarrow>
         (case json res of
            Rejected \<Rightarrow> s
          | Resolved data \<Rightarrow> s\<lparr>entitlements := data, loading := False\<rparr>))"

section \<open>The rules as the specification words them\<close>

text \<open>
  The ordered rule table of the specification, section 4.1: the value each of the nine
  rules yields on a raw response, in priority order, \<^term>\<open>None\<close> where the rule does
  not match. A label rule needs both the winner label and the field.
\<close>

definition ruleTable :: "'a PredictionResponseData_scheme \<Rightarrow> number option list" where
  "ruleTable r =
    [if PredictionResponseData.predicted_winner r = ''Home'' then prob_home_rl r else None,
     if PredictionResponseData.predicted_winner r = ''Away'' then prob_away_rl r else None,
     if PredictionResponseData.predicted_winner r = ''Draw'' then prob_draw_rl r else None,
     if PredictionResponseData.predicted_winner r = ''Home Win'' then prob_home_win r else None,
     if PredictionResponseData.predicted_winner r = ''Away Win'' then prob_away_win r else None,
     if PredictionResponseData.predicted_winner r = ''Draw'' then prob_draw r else None,
     winner_confidence r,
     overall_confidence r,
     PredictionResponseData.confidence r]"

text \<open>First match wins: the value of the first rule that matches, if any.\<close>

fun firstMatch :: "'a option list \<Rightarrow> 'a option" where
  "firstMatch [] = None"
| "firstMatch (None # cs) = firstMatch cs"
| "firstMatch (Some v # cs) = Some v"

text \<open>
  The alias precedence as the specification words it: the response's alias field if
  present, else its name field if present, else the requested alias.
\<close>

definition aliasPrecedence_spec :: "'a PredictionResponseData_scheme \<Rightarrow> string \<Rightarrow> string" where
  "aliasPrecedence_spec rawData requested =
    (case PredictionResponseData.model_alias rawData of
       Some a \<Rightarrow> a
     | None \<Rightarrow> (case model_name rawData of Some n \<Rightarrow> n | None \<Rightarrow> requested))"

section \<open>Sample inputs\<close>

text \<open>A response body with a winner label and no other member.\<close>

definition onlyWinner :: "string \<Rightarrow> PredictionResponseData" where
  "onlyWinner w =
    \<lparr>PredictionResponseData.predicted_winner = w, prob_home_win = None, prob_away_win = None,
     prob_draw = None, prob_home_rl = None, prob_away_rl = None, prob_draw_rl = None,
     winner_confidence = None, overall_confidence = None, confidence = None, margin = None,
     model_alias = None, model_name = None, prediction_id = None\<rparr>"

text \<open>A history record with a winner label and a model, and no other member.\<close>

definition onlyModel :: "string \<Rightarrow> string \<Rightarrow> UserPrediction" where
  "onlyModel w m =
    \<lparr>PredictionResponseData.predicted_winner = w, prob_home_win = None, prob_away_win = None,
     prob_draw = None, prob_home_rl = None, prob_away_rl = None, prob_draw_rl = None,
     winner_confidence = None, overall_confidence = None, confidence = None, margin = None,
     model_alias = None, model_name = None, prediction_id = None,
     model = m, match_date = None, home_team_name = None, away_team_name = None,
     prediction_timestamp = None\<rparr>"

text \<open>A 200 response whose body parses to the given data.\<close>

definition okResponse :: "'a \<Rightarrow> 'a response" where
  "okResponse data = \<lparr>ok = True, status = 200, statusText = ''OK'', json = Resolved data, detail = None\<rparr>"

definition samplePayload :: PredictionRequestPayload where
  "samplePayload = \<lparr>team_a = ''Broncos'', team_b = ''Storm'', match_date_str = ''2024-05-01'',
     odd_a = None, odd_b = None, odds_home_win = None, odds_away_win = None\<rparr>"

text \<open>
  \<^verbatim>\<open>new Date(s).getTime()\<close> at the strings of the samples: two ISO 8601 instants with
  their milliseconds since the epoch. The samples use no other string.
\<close>

definition getTimeSample :: "string \<Rightarrow> int option" where
  "getTimeSample s =
    (if s = ''2024-05-01T10:00:00Z'' then Some 1714557600000
     else if s = ''2024-06-15T08:30:00Z'' then Some 1718440200000
     else None)"

text \<open>A history record with an id and a timestamp, and what the service makes of it.\<close>

definition savedAt :: "number \<Rightarrow> string option \<Rightarrow> UserPrediction" where
  "savedAt n ts = (onlyModel ''Home Win'' ''Quick Pick'')
     \<lparr>PredictionResponseData.prediction_id := Some n, UserPrediction.prediction_timestamp := ts\<rparr>"

definition shown :: "number \<Rightarrow> string option \<Rightarrow> PredictionResult" where
  "shown n ts =
    \<lparr>PredictionResult.predicted_winner = ''Home Win'', confidence = 0, margin = None,
     model_alias = ''Quick Pick'', match_date = None, home_team_name = None,
     away_team_name = None, prediction_timestamp = ts, prediction_id = Some n\<rparr>"

definition emptyView :: UserPredictionsState where
  "emptyView = \<lparr>predictions = [], loading = True, error = None\<rparr>"

section \<open>Confidence resolution\<close>

lemma resultData_confidence:
  "PredictionResult.confidence (fst (resultData rawData modelAlias)) = fst (determineConfidence rawData)"
  by (simp add: resultData_def split: prod.splits)

lemma resultData_logged:
  "set (snd (determineConfidence rawData)) \<subseteq> set (snd (resultData rawData modelAlias))"
  by (auto simp add: resultData_def split: prod.splits)

lemma all_below_Suc: "(\<forall>j<Suc n. P j) = (P n \<and> (\<forall>j<n. P j))"
  by (auto simp: less_Suc_eq)

lemma firstMatch_at:
  assumes "i < length cs" and "cs ! i = Some v" and "\<forall>j<i. cs ! j = None"
  shows "firstMatch cs = Some v"
  using assms
proof (induction cs arbitrary: i)
  case Nil
  then show ?case by simp
next
  case (Cons c cs)
  show ?case
  proof (cases i)
    case 0
    with Cons.prems show ?thesis by simp
  next
    case (Suc k)
    with Cons.prems have "c = None" by auto
    moreover from Suc Cons.prems have "k < length cs" "cs ! k = Some v" by simp_all
    moreover from Suc Cons.prems have "\<forall>j<k. cs ! j = None" by auto
    ultimately show ?thesis using Cons.IH by simp
  qed
qed

text \<open>The chain of the code computes the first match of the table, and 0 without one.\<close>

lemma determineConfidence_firstMatch:
  "fst (determineConfidence rawData) = (case firstMatch (ruleTable rawData) of Some v \<Rightarrow> v | None \<Rightarrow> 0)"
  by (auto simp: determineConfidence_def ruleTable_def Let_def)

text \<open>
  Claim C1. Whenever some rule of the ordered table matches a raw response, the
  confidence of the result is the value of the first rule that matches: rule \<open>i\<close>
  gives \<open>v\<close> and no rule before it matches, so no rule after it is consulted.
\<close>

theorem confidence_from_highest_priority_rule:
  assumes "i < length (ruleTable rawData)"
    and "ruleTable rawData ! i = Some v"
    and "\<forall>j<i. ruleTable rawData ! j = None"
  shows "PredictionResult.confidence (fst (resultData rawData modelAlias)) = v"
  using firstMatch_at[OF assms]
  by (simp add: resultData_confidence determineConfidence_firstMatch)

text \<open>
  Claim C1, the scenario of the specification: winner \<^verbatim>\<open>Away Win\<close>, \<^verbatim>\<open>prob_away_win\<close>
  0.61 and generic \<^verbatim>\<open>confidence\<close> 0.5 give 0.61, by the fifth rule.
\<close>

theorem confidence_from_highest_priority_rule_witness:
  "PredictionResult.confidence
     (fst (resultData ((onlyWinner ''Away Win'')\<lparr>prob_away_win := Some 0.61,
                         PredictionResponseData.confidence := Some 0.5\<rparr>) ''Quick Pick'')) = 0.61"
  using confidence_from_highest_priority_rule[of 4
      "(onlyWinner ''Away Win'')\<lparr>prob_away_win := Some 0.61,
                         PredictionResponseData.confidence := Some 0.5\<rparr>" "0.61" "''Quick Pick''"]
  by (simp add: ruleTable_def onlyWinner_def numeral_eq_Suc all_below_Suc)

text \<open>
  Claim C5. When no rule of the table matches, the confidence of the result is 0 and
  the warning that no confidence could be determined is among the logged events. The
  confidence of a result is a number in every case: the variable starts at 0 and is
  only ever assigned a field that was tested to be present.
\<close>

theorem no_recognized_field_confidence_zero:
  assumes "list_all (\<lambda>c. c = None) (ruleTable rawData)"
  shows "PredictionResult.confidence (fst (resultData rawData modelAlias)) = 0
    \<and> Console Warn (''Could not determine confidence for predicted winner '' @ [CHR 0x27]
         @ PredictionResponseData.predicted_winner rawData @ [CHR 0x27] @ ''. Using 0.'')
       \<in> set (snd (resultData rawData modelAlias))"
proof -
  have "determineConfidence rawData =
    (0, [Console Warn (''Could not determine confidence for predicted winner '' @ [CHR 0x27]
         @ PredictionResponseData.predicted_winner rawData @ [CHR 0x27] @ ''. Using 0.'')])"
    using assms by (auto simp: ruleTable_def determineConfidence_def Let_def split: if_splits)
  then show ?thesis
    using resultData_logged[of rawData modelAlias] by (simp add: resultData_confidence)
qed

text \<open>
  Claim C5, the scenario of the specification: winner \<^verbatim>\<open>Draw\<close> and no probability
  field.
\<close>

theorem no_recognized_field_confidence_zero_witness:
  "PredictionResult.confidence (fst (resultData (onlyWinner ''Draw'') ''Quick Pick'')) = 0
    \<and> Console Warn ''Could not determine confidence for predicted winner 'Draw'. Using 0.''
       \<in> set (snd (resultData (onlyWinner ''Draw'') ''Quick Pick''))"
  using no_recognized_field_confidence_zero[of "onlyWinner ''Draw''" "''Quick Pick''"]
  by (simp add: ruleTable_def onlyWinner_def)

text \<open>
  Claim C10. The label matching is exact and specific to the variant: a probability
  field has no influence on the confidence, nor on what is logged, unless the winner is
  the one label of its rule. So a response with winner \<^verbatim>\<open>Home\<close> and none of
  \<^verbatim>\<open>prob_home_rl\<close>, \<^verbatim>\<open>winner_confidence\<close>, \<^verbatim>\<open>overall_confidence\<close>, \<^verbatim>\<open>confidence\<close> gets
  confidence 0, whatever its \<^verbatim>\<open>prob_home_win\<close>.
\<close>

theorem winner_label_matching_exact:
  "(PredictionResponseData.predicted_winner rawData \<noteq> ''Home'' \<longrightarrow>
      determineConfidence (rawData\<lparr>prob_home_rl := x\<rparr>) = determineConfidence rawData)
   \<and> (PredictionResponseData.predicted_winner rawData \<noteq> ''Away'' \<longrightarrow>
      determineConfidence (rawData\<lparr>prob_away_rl := x\<rparr>) = determineConfidence rawData)
   \<and> (PredictionResponseData.predicted_winner rawData \<noteq> ''Draw'' \<longrightarrow>
      determineConfidence (rawData\<lparr>prob_draw_rl := x\<rparr>) = determineConfidence rawData)
   \<and> (PredictionResponseData.predicted_winner rawData \<noteq> ''Home Win'' \<longrightarrow>
      determineConfidence (rawData\<lparr>prob_home_win := x\<rparr>) = determineConfidence rawData)
   \<and> (PredictionResponseData.predicted_winner rawData \<noteq> ''Away Win'' \<longrightarrow>
      determineConfidence (rawData\<lparr>prob_away_win := x\<rparr>) = determineConfidence rawData)
   \<and> (PredictionResponseData.predicted_winner rawData \<noteq> ''Draw'' \<longrightarrow>
      determineConfidence (rawData\<lparr>prob_draw := x\<rparr>) = determineConfidence rawData)
   \<and> (PredictionResponseData.predicted_winner rawData = ''Home'' \<and> prob_home_rl rawData = None
       \<and> winner_confidence rawData = None \<and> overall_confidence rawData = None
       \<and> PredictionResponseData.confidence rawData = None \<longrightarrow>
      PredictionResult.confidence (fst (resultData rawData modelAlias)) = 0)"
  by (intro conjI impI) (simp_all add: determineConfidence_def Let_def resultData_confidence)

text \<open>
  Claim C10 at a response with winner \<^verbatim>\<open>Home\<close> whose only other member is
  \<^verbatim>\<open>prob_home_win\<close> 0.8: the confidence is 0, and the field changes nothing.
\<close>

theorem winner_label_matching_exact_witness:
  "PredictionResult.confidence
     (fst (resultData ((onlyWinner ''Home'')\<lparr>prob_home_win := Some 0.8\<rparr>) ''Quick Pick'')) = 0
   \<and> determineConfidence ((onlyWinner ''Home'')\<lparr>prob_home_win := Some 0.8\<rparr>)
      = determineConfidence (onlyWinner ''Home'')"
  using winner_label_matching_exact[of "(onlyWinner ''Home'')\<lparr>prob_home_win := Some 0.8\<rparr>" None "''Quick Pick''"]
    winner_label_matching_exact[of "onlyWinner ''Home''" "Some 0.8" "''Quick Pick''"]
  by (simp add: onlyWinner_def)

text \<open>
  Claim C9. The margin and the prediction id of the result are those of the raw
  response, present or absent.
\<close>

theorem resultData_margin_prediction_id_passthrough:
  "PredictionResult.margin (fst (resultData rawData modelAlias)) = PredictionResponseData.margin rawData
   \<and> PredictionResult.prediction_id (fst (resultData rawData modelAlias))
       = PredictionResponseData.prediction_id rawData"
  by (simp add: resultData_def split: prod.splits)

section \<open>The call as a whole\<close>

lemma readMember_JsonObject: "readMember (JsonObject obj) field = Some (field obj)"
  by (simp add: readMember_def)


lemma fallback_step:
  "(case x of None \<Rightarrow> Some rest | Some v \<Rightarrow> Some (v, l))
     = Some (if x \<noteq> None then (the x, l) else rest)"
  by (cases x) simp_all

lemma labelRule_step:
  "(labelRule c (JsonObject obj) f \<bind> (\<lambda>r. case r of None \<Rightarrow> Some rest | Some v \<Rightarrow> Some (v, l)))
     = Some (if c \<and> f obj \<noteq> None then (the (f obj), l) else rest)"
  by (cases "f obj") (simp_all add: labelRule_def readMember_JsonObject)

text \<open>On an object every read succeeds, and the lines compute what the chain above says.\<close>

lemma confidenceStatements_JsonObject:
  "confidenceStatements (JsonObject obj) = Some (determineConfidence obj)"
  by (simp add: confidenceStatements_def determineConfidence_def Let_def
      readMember_JsonObject fallback_step labelRule_step)

lemma processRawData_JsonObject:
  "processRawData (JsonObject obj) modelAlias = Some (resultData obj modelAlias)"
  by (simp add: processRawData_def confidenceStatements_JsonObject readMember_JsonObject
      resultData_def finalAlias_def Let_def case_prod_beta)





lemma getModelByAlias_None: "getModelByAlias a = None \<longleftrightarrow> a \<notin> alias ` set PREDICTION_MODELS"
  by (auto simp: getModelByAlias_def find_None_iff)

text \<open>
  Claim C7. For an alias that no model of the registry has, \<^verbatim>\<open>getPrediction\<close> fails
  with the configuration error and has done nothing before it: the list of effects is
  empty, so it holds no \<^verbatim>\<open>fetch\<close>, whatever the network would have answered.
\<close>

theorem getPrediction_unknown_alias_no_fetch:
  assumes "modelAlias \<notin> alias ` set PREDICTION_MODELS"
  shows "getPrediction net payload modelAlias idToken = (Inl (ModelNotFound modelAlias), [])
    \<and> (\<forall>req. Fetch req \<notin> set (snd (getPrediction net payload modelAlias idToken)))"
  using assms by (simp add: getPrediction_def getModelByAlias_None[symmetric])

text \<open>Claim C7, the scenario of the specification: the alias \<^verbatim>\<open>Nonexistent\<close>.\<close>

theorem getPrediction_unknown_alias_no_fetch_witness:
  "getPrediction (\<lambda>req. Resolved (okResponse (JsonObject (onlyWinner ''Home''))))
       samplePayload ''Nonexistent'' None
     = (Inl (ModelNotFound ''Nonexistent''), [])"
  using getPrediction_unknown_alias_no_fetch[of "''Nonexistent''"
      "\<lambda>req. Resolved (okResponse (JsonObject (onlyWinner ''Home'')))" samplePayload None]
  by (simp add: PREDICTION_MODELS_def)

section \<open>The alias of the result\<close>

text \<open>
  Claim C8 as stated fails where \<^verbatim>\<open>model_alias\<close> is present and empty: \<^verbatim>\<open>||\<close> takes an
  empty string for absent, so the result carries \<^verbatim>\<open>model_name\<close>, not the alias field.
\<close>

theorem empty_model_alias_counterexample:
  "PredictionResult.model_alias
     (fst (resultData ((onlyWinner ''Home Win'')\<lparr>PredictionResponseData.model_alias := Some [],
                         model_name := Some ''lr''\<rparr>) ''Quick Pick''))
   \<noteq> aliasPrecedence_spec ((onlyWinner ''Home Win'')\<lparr>PredictionResponseData.model_alias := Some [],
                         model_name := Some ''lr''\<rparr>) ''Quick Pick''"
  by (simp add: resultData_def finalAlias_def truthy_def aliasPrecedence_spec_def onlyWinner_def
      split: prod.splits)

text \<open>
  Claim C8, amended. For every raw response object that \<^verbatim>\<open>getPrediction\<close> receives in
  a 2xx response, the call returns a result, and its alias is the response's \<^verbatim>\<open>model_alias\<close>
  if that is present and not empty, else its \<^verbatim>\<open>model_name\<close> if that is present and not
  empty, else the requested alias. An alias of the backend that differs from the
  requested one is logged as a warning and used.
\<close>

theorem finalAlias_precedence:
  assumes "getModelByAlias modelAlias \<noteq> None"
    and "\<forall>req. net req = Resolved response"
    and "ok response"
    and "json response = Resolved (JsonObject rawData)"
  shows "\<exists>result. fst (getPrediction net payload modelAlias idToken) = Inr result
    \<and> PredictionResult.model_alias result =
        (if truthy (PredictionResponseData.model_alias rawData)
           then the (PredictionResponseData.model_alias rawData)
         else if truthy (model_name rawData) then the (model_name rawData)
         else modelAlias)
    \<and> (truthy (PredictionResponseData.model_alias rawData)
        \<and> the (PredictionResponseData.model_alias rawData) \<noteq> modelAlias \<longrightarrow>
         Console Warn (''Backend returned alias '' @ [CHR 0x27]
             @ the (PredictionResponseData.model_alias rawData) @ [CHR 0x27]
             @ '' but requested '' @ [CHR 0x27] @ modelAlias @ [CHR 0x27] @ ''. Using backend alias.'')
           \<in> set (snd (getPrediction net payload modelAlias idToken)))"
  using assms
  by (auto simp: getPrediction_def processRawData_JsonObject resultData_def finalAlias_def Let_def
      split: prod.splits option.splits)

text \<open>
  Claim C8, amended, at a response that names \<^verbatim>\<open>Stacked\<close> when \<^verbatim>\<open>Quick Pick\<close> was
  requested: the result carries \<^verbatim>\<open>Stacked\<close>.
\<close>

theorem finalAlias_precedence_witness:
  "\<exists>result. fst (getPrediction
        (\<lambda>req. Resolved (okResponse (JsonObject
           ((onlyWinner ''Home Win'')\<lparr>PredictionResponseData.model_alias := Some ''Stacked''\<rparr>))))
        samplePayload ''Quick Pick'' None) = Inr result
     \<and> PredictionResult.model_alias result = ''Stacked''"
  using finalAlias_precedence[of "''Quick Pick''"
      "\<lambda>req. Resolved (okResponse (JsonObject
           ((onlyWinner ''Home Win'')\<lparr>PredictionResponseData.model_alias := Some ''Stacked''\<rparr>)))"
      "okResponse (JsonObject
           ((onlyWinner ''Home Win'')\<lparr>PredictionResponseData.model_alias := Some ''Stacked''\<rparr>))"
      "(onlyWinner ''Home Win'')\<lparr>PredictionResponseData.model_alias := Some ''Stacked''\<rparr>"
      samplePayload None]
  by (auto simp add: getModelByAlias_def PREDICTION_MODELS_def okResponse_def onlyWinner_def truthy_def)

section \<open>History records\<close>

lemma historyConfidence_eq:
  "fst (historyConfidence rawPred) =
     fst (determineConfidence (rawPred\<lparr>PredictionResponseData.confidence := None,
                               PredictionResponseData.margin := None\<rparr>))"
  by (auto simp: historyConfidence_def determineConfidence_def Let_def)

lemma getUserPredictions_ok:
  "fst (getUserPredictions (\<lambda>req. Resolved (okResponse raws)) token)
     = Inr (map (\<lambda>r. fst (processRawPrediction r)) raws)"
  by (simp add: getUserPredictions_def okResponse_def Let_def comp_def)

text \<open>
  Claim C3 as stated fails at a history record whose only confidence-bearing member is
  the generic \<^verbatim>\<open>confidence\<close> and which has a margin: the processing of
  \<^verbatim>\<open>getPrediction\<close> gives confidence 0.5 and margin 4, \<^verbatim>\<open>getUserPredictions\<close> gives
  confidence 0 and no margin.
\<close>

theorem getUserPredictions_differs_from_getPrediction:
  "PredictionResult.confidence (fst (processRawPrediction
       ((onlyModel ''Home Win'' ''Quick Pick'')\<lparr>PredictionResponseData.confidence := Some 0.5,
           PredictionResponseData.margin := Some (Scalar 4)\<rparr>)))
     \<noteq> PredictionResult.confidence (fst (resultData
       ((onlyModel ''Home Win'' ''Quick Pick'')\<lparr>PredictionResponseData.confidence := Some 0.5,
           PredictionResponseData.margin := Some (Scalar 4)\<rparr>) ''Quick Pick''))
   \<and> PredictionResult.margin (fst (processRawPrediction
       ((onlyModel ''Home Win'' ''Quick Pick'')\<lparr>PredictionResponseData.confidence := Some 0.5,
           PredictionResponseData.margin := Some (Scalar 4)\<rparr>)))
     \<noteq> PredictionResult.margin (fst (resultData
       ((onlyModel ''Home Win'' ''Quick Pick'')\<lparr>PredictionResponseData.confidence := Some 0.5,
           PredictionResponseData.margin := Some (Scalar 4)\<rparr>) ''Quick Pick''))"
  by (simp add: processRawPrediction_def historyConfidence_def resultData_def determineConfidence_def
      onlyModel_def Let_def split: prod.splits)

text \<open>
  Claim C3, amended. For every raw history record, \<^verbatim>\<open>getUserPredictions\<close> produces what
  the processing of \<^verbatim>\<open>getPrediction\<close> produces on the same field bag without its generic
  \<^verbatim>\<open>confidence\<close> and without its margin (the same resolution order up to
  \<^verbatim>\<open>overall_confidence\<close>, then 0; the same winner and prediction id), with the record's
  \<^verbatim>\<open>model\<close> as the alias and with the record's match date, team names and timestamp
  copied.
\<close>

theorem processRawPrediction_as_resultData:
  "fst (processRawPrediction rawPred) =
     (fst (resultData (rawPred\<lparr>PredictionResponseData.confidence := None,
                               PredictionResponseData.margin := None\<rparr>) (model rawPred)))
       \<lparr>PredictionResult.model_alias := model rawPred,
        PredictionResult.match_date := UserPrediction.match_date rawPred,
        PredictionResult.home_team_name := UserPrediction.home_team_name rawPred,
        PredictionResult.away_team_name := UserPrediction.away_team_name rawPred,
        PredictionResult.prediction_timestamp := UserPrediction.prediction_timestamp rawPred\<rparr>"
  by (simp add: processRawPrediction_def resultData_def case_prod_beta historyConfidence_eq)

section \<open>The order of the history view\<close>

lemma processRawPrediction_savedAt: "fst (processRawPrediction (savedAt n ts)) = shown n ts"
  by (simp add: processRawPrediction_def historyConfidence_def savedAt_def onlyModel_def shown_def)

text \<open>
  Where every key is a number, the comparator is consistent, and the sort is the
  library's stable sort by the negated key.
\<close>

lemma insertBy_insort_key:
  assumes "dateOf g x \<noteq> None" and "\<forall>y\<in>set ys. dateOf g y \<noteq> None"
  shows "insertBy (compareFn g) x ys = insort_key (\<lambda>r. - the (dateOf g r)) x ys"
  using assms by (induction ys) (auto simp: sortCompare_def compareFn_def)

lemma arraySort_sort_key:
  assumes "\<forall>y\<in>set xs. dateOf g y \<noteq> None"
  shows "arraySort (compareFn g) xs = sort_key (\<lambda>r. - the (dateOf g r)) xs"
  using assms
proof (induction xs)
  case Nil
  then show ?case by (simp add: arraySort_def)
next
  case (Cons x xs)
  then have "arraySort (compareFn g) xs = sort_key (\<lambda>r. - the (dateOf g r)) xs" by simp
  moreover have "arraySort (compareFn g) (x # xs) = insertBy (compareFn g) x (arraySort (compareFn g) xs)"
    by (simp add: arraySort_def)
  ultimately show ?case using Cons.prems by (simp add: insertBy_insort_key)
qed

lemma fetchPredictions_ok:
  assumes "fst (getUserPredictions net token) = Inr userPreds"
  shows "predictions (fetchPredictions getTime net (Some (Resolved token)) s)
    = arraySort (compareFn getTime) userPreds"
  using assms by (simp add: fetchPredictions_def)

text \<open>
  The \<^verbatim>\<open>fetchPredictions\<close> of \<^verbatim>\<open>useEffect\<close>, the one the component runs, stores the
  records in the order the backend sent them, whatever their timestamps.
\<close>

lemma useEffect_fetchPredictions_unsorted:
  assumes "fst (getUserPredictions net token) = Inr userPreds"
  shows "predictions (useEffect_fetchPredictions net (Some (Resolved token)) s) = userPreds"
  using assms by (simp add: useEffect_fetchPredictions_def)

text \<open>
  The extracted \<^verbatim>\<open>fetchPredictions\<close> (lines 21 to 46), which nothing calls, does what
  its comment says, newest first: where every timestamp is missing, empty or a
  date, it exposes the fetched records in descending order of key, records of equal
  key in the order they were fetched. The key of a missing or empty timestamp is 0.
\<close>

lemma fetchPredictions_sorted_stable:
  assumes "fst (getUserPredictions net token) = Inr userPreds"
    and "\<forall>r\<in>set userPreds. dateOf getTime r \<noteq> None"
  shows "mset (predictions (fetchPredictions getTime net (Some (Resolved token)) s)) = mset userPreds
    \<and> sorted_wrt (\<lambda>a b. the (dateOf getTime b) \<le> the (dateOf getTime a))
        (predictions (fetchPredictions getTime net (Some (Resolved token)) s))
    \<and> (\<forall>k. filter (\<lambda>r. dateOf getTime r = Some k)
               (predictions (fetchPredictions getTime net (Some (Resolved token)) s))
           = filter (\<lambda>r. dateOf getTime r = Some k) userPreds)
    \<and> (\<forall>r. \<not> truthy (PredictionResult.prediction_timestamp r) \<longrightarrow> dateOf getTime r = Some 0)"
proof -
  let ?f = "\<lambda>r. - the (dateOf getTime r)"
  let ?ys = "predictions (fetchPredictions getTime net (Some (Resolved token)) s)"
  have ys: "?ys = sort_key ?f userPreds"
    using assms by (simp add: fetchPredictions_ok arraySort_sort_key)
  have perm: "mset ?ys = mset userPreds" by (simp add: ys)
  have "sorted (map ?f ?ys)" by (simp add: ys)
  then have ordered: "sorted_wrt (\<lambda>a b. the (dateOf getTime b) \<le> the (dateOf getTime a)) ?ys"
    by (simp add: sorted_map)
  have stable: "filter (\<lambda>r. dateOf getTime r = Some k) ?ys
      = filter (\<lambda>r. dateOf getTime r = Some k) userPreds" for k
  proof -
    have same: "(dateOf getTime r = Some k) = (?f r = - k)" if "r \<in> set userPreds" for r
      using assms(2) that by auto
    have "filter (\<lambda>r. dateOf getTime r = Some k) ?ys = filter (\<lambda>r. ?f r = - k) ?ys"
      by (rule filter_cong) (simp_all add: ys same)
    also have "\<dots> = filter (\<lambda>r. ?f r = - k) userPreds"
      unfolding ys by (rule sort_key_stable)
    also have "\<dots> = filter (\<lambda>r. dateOf getTime r = Some k) userPreds"
      by (rule filter_cong) (simp_all add: same)
    finally show ?thesis .
  qed
  have missing: "\<forall>r. \<not> truthy (PredictionResult.prediction_timestamp r) \<longrightarrow> dateOf getTime r = Some 0"
    by (simp add: dateOf_def)
  show ?thesis using perm ordered stable missing by blast
qed

text \<open>
  Claim C4 does not hold of the history view as it runs. The backend sends a record of
  May and then a record of June, both with valid timestamps. The mounted view exposes
  them as sent, May before June, the older one first. The extracted
  \<^verbatim>\<open>fetchPredictions\<close> would expose June before May on the same answer, but the
  component never calls it.
\<close>

theorem mounted_history_keeps_backend_order:
  "predictions (useEffect_fetchPredictions
        (\<lambda>req. Resolved (okResponse [savedAt 1 (Some ''2024-05-01T10:00:00Z''),
                                      savedAt 2 (Some ''2024-06-15T08:30:00Z'')]))
        (Some (Resolved ''token'')) emptyView)
     = [shown 1 (Some ''2024-05-01T10:00:00Z''), shown 2 (Some ''2024-06-15T08:30:00Z'')]
   \<and> dateOf getTimeSample (shown 1 (Some ''2024-05-01T10:00:00Z'')) = Some 1714557600000
   \<and> dateOf getTimeSample (shown 2 (Some ''2024-06-15T08:30:00Z'')) = Some 1718440200000
   \<and> predictions (fetchPredictions getTimeSample
        (\<lambda>req. Resolved (okResponse [savedAt 1 (Some ''2024-05-01T10:00:00Z''),
                                      savedAt 2 (Some ''2024-06-15T08:30:00Z'')]))
        (Some (Resolved ''token'')) emptyView)
     = [shown 2 (Some ''2024-06-15T08:30:00Z''), shown 1 (Some ''2024-05-01T10:00:00Z'')]"
  by (simp add: useEffect_fetchPredictions_def fetchPredictions_def getUserPredictions_ok
      processRawPrediction_savedAt arraySort_def sortCompare_def compareFn_def dateOf_def
      getTimeSample_def shown_def truthy_def)

section \<open>Entitlement state after a failed refresh\<close>

text \<open>
  The prediction form fails closed: after \<^verbatim>\<open>fetchAllowedModes\<close> the allowed modes are
  \<^verbatim>\<open>['Quick Pick']\<close>, unless a 2xx response was parsed, whose body they then are.
\<close>

lemma fetchAllowedModes_fail_closed:
  "fst (fetchAllowedModes net currentUser allowedModes) = [''Quick Pick'']
   \<or> (\<exists>req response. net req = Resolved response \<and> ok response
        \<and> json response = Resolved (fst (fetchAllowedModes net currentUser allowedModes)))"
proof (cases "awaitIdToken currentUser")
  case Rejected
  then show ?thesis by (simp add: fetchAllowedModes_def)
next
  case (Resolved token)
  show ?thesis
  proof (cases "net (modesRequest token)")
    case Rejected
    with Resolved show ?thesis by (simp add: fetchAllowedModes_def)
  next
    case fetched: (Resolved response)
    show ?thesis
    proof (cases "ok response")
      case False
      with Resolved fetched show ?thesis by (simp add: fetchAllowedModes_def)
    next
      case True
      show ?thesis
      proof (cases "json response")
        case Rejected
        with Resolved fetched True show ?thesis by (simp add: fetchAllowedModes_def)
      next
        case parsed: (Resolved modes)
        with Resolved fetched True
        have "fst (fetchAllowedModes net currentUser allowedModes) = modes"
          by (simp add: fetchAllowedModes_def)
        with fetched True parsed show ?thesis by blast
      qed
    qed
  qed
qed

text \<open>
  Claim C2 does not hold of the entitlements provider. With \<^verbatim>\<open>Quick Pick\<close> and
  \<^verbatim>\<open>Deep Dive\<close> exposed, a poll whose \<^verbatim>\<open>fetch\<close> is rejected leaves the state as it was;
  a poll answered 403 with a body that has no \<^verbatim>\<open>entitlements\<close> member stores
  \<^verbatim>\<open>undefined\<close>. Neither state is the free-tier set.
\<close>

theorem fetchEntitlements_keeps_stale_entitlements:
  "fetchEntitlements (\<lambda>req. Rejected)
      \<lparr>entitlements = Some [''Quick Pick'', ''Deep Dive''], loading = False\<rparr>
     = \<lparr>entitlements = Some [''Quick Pick'', ''Deep Dive''], loading = False\<rparr>
   \<and> entitlements (fetchEntitlements
        (\<lambda>req. Resolved \<lparr>ok = False, status = 403, statusText = ''Forbidden'',
                          json = Resolved None, detail = Some ''Forbidden''\<rparr>)
        \<lparr>entitlements = Some [''Quick Pick'', ''Deep Dive''], loading = False\<rparr>)
     \<noteq> Some [''Quick Pick'']"
  by (simp add: fetchEntitlements_def)

end
